theory Spec2Isabelle
  imports Complex_Main "HOL-Library.AList"
begin

section \<open>JavaScript values\<close>

text \<open>
  The sources are JavaScript. The values that flow through the two classes and the page
  helper are only stored, tested for truthiness, compared and asked for their type, so a
  value is a tagged union. A function or an object is known by its identity. A number is
  an IEEE double of which only the special values matter to the code (the default timeout
  is \<open>Infinity\<close>); no arithmetic is done on it anywhere.
\<close>

datatype jsnum = NaN | Infinity | NegInfinity | Finite real

datatype jsval =
    JUndefined
  | JNull
  | JBool bool
  | JNum jsnum
  | JStr string
  | JFun nat
  | JObj nat

text \<open>The \<open>typeof\<close> operator.\<close>

fun typeof :: "jsval \<Rightarrow> string" where
  "typeof JUndefined = ''undefined''"
| "typeof JNull = ''object''"
| "typeof (JBool b) = ''boolean''"
| "typeof (JNum n) = ''number''"
| "typeof (JStr s) = ''string''"
| "typeof (JFun f) = ''function''"
| "typeof (JObj p) = ''object''"

text \<open>Truthiness, as \<open>if (v)\<close> and \<open>!v\<close> test it.\<close>

fun truthy :: "jsval \<Rightarrow> bool" where
  "truthy JUndefined = False"
| "truthy JNull = False"
| "truthy (JBool b) = b"
| "truthy (JNum n) = (n \<noteq> NaN \<and> n \<noteq> Finite 0)"
| "truthy (JStr s) = (s \<noteq> [])"
| "truthy (JFun f) = True"
| "truthy (JObj p) = True"

text \<open>\<open>v == undefined\<close> and \<open>v == null\<close>: loose equality with a nullish constant.\<close>

definition nullish :: "jsval \<Rightarrow> bool" where
  "nullish v = (v = JUndefined \<or> v = JNull)"

text \<open>
  A plain object (\<open>{}\<close>) is its list of own properties in insertion order. Assigning
  \<open>o[k] = v\<close> is \<open>AList.update k v\<close>: an existing key keeps its place, a new one is
  appended. The inherited \<open>hasOwnProperty\<close> method and \<open>o[k]\<close> read it; the other
  properties inherited from \<open>Object.prototype\<close> are outside the model.
\<close>

type_synonym jsobject = "(string \<times> jsval) list"

definition hasOwnProperty :: "jsobject \<Rightarrow> string \<Rightarrow> bool" where
  "hasOwnProperty obj k = (map_of obj k \<noteq> None)"

definition lookup :: "jsobject \<Rightarrow> string \<Rightarrow> jsval" where
  "lookup obj k = (case map_of obj k of None \<Rightarrow> JUndefined | Some v \<Rightarrow> v)"

datatype js_error = TypeError | SyntaxError | NetworkError

text \<open>
  A call either returns or throws; the receiver's state at that moment is kept in both
  cases, since the assignments made before a throw stay made.
\<close>

datatype 'a outcome = Returned 'a | Threw js_error 'a

fun state_of :: "'a outcome \<Rightarrow> 'a" where
  "state_of (Returned s) = s"
| "state_of (Threw e s) = s"

section \<open>Ext.util.Stateful\<close>

text \<open>
  The class keeps \<open>editing\<close>, \<open>dirty\<close>, the data bag \<open>this[this.persistanceProperty]\<close>
  (the field \<open>data\<close> here, \<open>persistanceProperty\<close> being \<open>'data'\<close> unless configured to
  another fresh property name) and \<open>modified\<close>, which \<open>delete this.modified\<close> removes:
  \<open>None\<close> is the deleted property.

  \<open>afterEdit\<close>, \<open>afterReject\<close> and \<open>afterCommit\<close> are called but not defined in this
  class; the subclasses of the framework (\<open>Ext.data.Model\<close>) supply them. The calls are
  recorded in \<open>notified\<close>.
\<close>

datatype notification = AfterEdit | AfterReject | AfterCommit

record stateful =
  editing :: bool
  dirty :: bool
  data :: jsobject
  modified :: "jsobject option"
  notified :: "notification list"

text \<open>
  \<open>this.fields\<close> is supplied by the subclass too: a keyed collection of field
  descriptions, undefined on a bare instance. \<open>convert\<close> is the field's convert function
  (called as \<open>convert(value, this)\<close>), \<open>None\<close> when the field has none;
  \<open>custom_convert\<close> is the test \<open>field.convert !== field.type.convert\<close>, an identity
  test between two function objects that the description carries as a flag.
\<close>

record field =
  name :: string
  convert :: "(jsval \<Rightarrow> stateful \<Rightarrow> jsval) option"
  custom_convert :: bool

text \<open>
  Modelled from the spec: the hooks of the owning collection, which the source calls and
  does not define. Dirty tracking is "used by the owning collection to determine what
  needs to be persisted": a hook notifies the owner and leaves the record alone.
\<close>

definition afterEdit :: "stateful \<Rightarrow> stateful" where
  "afterEdit r = r\<lparr>notified := notified r @ [AfterEdit]\<rparr>"

definition afterReject :: "stateful \<Rightarrow> stateful" where
  "afterReject r = r\<lparr>notified := notified r @ [AfterReject]\<rparr>"

definition afterCommit :: "stateful \<Rightarrow> stateful" where
  "afterCommit r = r\<lparr>notified := notified r @ [AfterCommit]\<rparr>"

text \<open>\<open>fields.get(key)\<close>: the field of that name, or undefined.\<close>

definition fields_get :: "field list \<Rightarrow> string \<Rightarrow> field option" where
  "fields_get fs key = find (\<lambda>fd. name fd = key) fs"

text \<open>
  The constructor: the prototype's \<open>editing\<close> and \<open>dirty\<close> are false, \<open>modified\<close> and the
  data bag are fresh empty objects. The superclass constructor it calls last is not among
  the sources and is taken to leave these properties alone.
\<close>

definition Stateful_constructor :: stateful where
  "Stateful_constructor =
     \<lparr>editing = False, dirty = False, data = [], modified = Some [], notified = []\<rparr>"

definition get :: "string \<Rightarrow> stateful \<Rightarrow> jsval" where
  "get fieldName r = lookup (data r) fieldName"

text \<open>The \<open>else\<close> branch of \<open>set\<close>: one field name and one value.\<close>

definition set_one :: "field list option \<Rightarrow> string \<Rightarrow> jsval \<Rightarrow> stateful \<Rightarrow> stateful" where
  "set_one flds fieldName v r =
     (let v' = (case flds of
                  None \<Rightarrow> v
                | Some fs \<Rightarrow>
                    (case fields_get fs fieldName of
                       None \<Rightarrow> v
                     | Some fd \<Rightarrow> (case convert fd of None \<Rightarrow> v | Some c \<Rightarrow> c v r)));
          r1 = r\<lparr>data := AList.update fieldName v' (data r)\<rparr>;
          r2 = r1\<lparr>dirty := True\<rparr>
      in if \<not> editing r2 then afterEdit r2 else r2)"

text \<open>
  \<open>o.hasOwnProperty(k)\<close> as the class calls it, on an object that holds field names as
  keys: the method is looked up on \<open>o\<close> itself, so an own property named
  \<open>hasOwnProperty\<close> shadows the inherited method. A value there that is not a function
  makes the call throw a TypeError; a function there is called instead of the inherited
  method. What a function object does when called with a key, return a value or throw, is
  the parameter \<open>call_fn\<close>.
\<close>

type_synonym fn_call = "nat \<Rightarrow> string \<Rightarrow> js_error + jsval"

definition hasOwnProperty_call :: "fn_call \<Rightarrow> jsobject \<Rightarrow> string \<Rightarrow> js_error + bool" where
  "hasOwnProperty_call call_fn obj k =
     (case map_of obj ''hasOwnProperty'' of
        None \<Rightarrow> Inr (hasOwnProperty obj k)
      | Some v \<Rightarrow>
          (case v of
             JFun f \<Rightarrow> (case call_fn f k of Inl e \<Rightarrow> Inl e | Inr b \<Rightarrow> Inr (truthy b))
           | _ \<Rightarrow> Inl TypeError))"

text \<open>
  The object branch of \<open>set\<close>: the first loop skips the keys that are not own, sets every
  key whose field has no custom convert function and collects the others in
  \<open>convertFields\<close>; the second loop sets those. \<open>fields.get\<close> on undefined \<open>fields\<close>
  throws at the first key that is not skipped.
\<close>

fun set_plain ::
  "fn_call \<Rightarrow> field list option \<Rightarrow> jsobject \<Rightarrow> string list \<Rightarrow> stateful
     \<Rightarrow> (string list \<times> stateful) outcome" where
  "set_plain call_fn flds obj [] r = Returned ([], r)"
| "set_plain call_fn flds obj (key # keys) r =
     (case hasOwnProperty_call call_fn obj key of
        Inl e \<Rightarrow> Threw e ([], r)
      | Inr own \<Rightarrow>
          if \<not> own then set_plain call_fn flds obj keys r
          else
            (case flds of
               None \<Rightarrow> Threw TypeError ([], r)
             | Some fs \<Rightarrow>
                 (case fields_get fs key of
                    None \<Rightarrow>
                      set_plain call_fn flds obj keys (set_one flds key (lookup obj key) r)
                  | Some fd \<Rightarrow>
                      if custom_convert fd
                      then (case set_plain call_fn flds obj keys r of
                              Returned (cs, r') \<Rightarrow> Returned (key # cs, r')
                            | Threw e (cs, r') \<Rightarrow> Threw e (key # cs, r'))
                      else set_plain call_fn flds obj keys
                             (set_one flds key (lookup obj key) r))))"

fun set_converted :: "field list option \<Rightarrow> jsobject \<Rightarrow> string list \<Rightarrow> stateful \<Rightarrow> stateful" where
  "set_converted flds obj [] r = r"
| "set_converted flds obj (f # cs) r =
     set_converted flds obj cs (set_one flds f (lookup obj f) r)"

datatype set_arguments = One string jsval | Many jsobject

fun set_stateful ::
  "fn_call \<Rightarrow> field list option \<Rightarrow> set_arguments \<Rightarrow> stateful \<Rightarrow> stateful outcome" where
  "set_stateful call_fn flds (One fieldName v) r = Returned (set_one flds fieldName v r)"
| "set_stateful call_fn flds (Many obj) r =
     (case set_plain call_fn flds obj (map fst obj) r of
        Threw e (convertFields, r') \<Rightarrow> Threw e r'
      | Returned (convertFields, r') \<Rightarrow> Returned (set_converted flds obj convertFields r'))"

text \<open>\<open>!!(this.modified && this.modified.hasOwnProperty(fieldName))\<close>.\<close>

definition isModified :: "fn_call \<Rightarrow> string \<Rightarrow> stateful \<Rightarrow> js_error + bool" where
  "isModified call_fn fieldName r =
     (case modified r of
        None \<Rightarrow> Inr False
      | Some m \<Rightarrow> hasOwnProperty_call call_fn m fieldName)"

text \<open>
  \<open>setDirty\<close>: \<open>this.fields.each\<close> on undefined \<open>fields\<close> throws after the flag and the
  map have been set.
\<close>

definition snapshot_field :: "field \<Rightarrow> stateful \<Rightarrow> stateful" where
  "snapshot_field fd r =
     r\<lparr>modified := map_option (AList.update (name fd) (lookup (data r) (name fd))) (modified r)\<rparr>"

definition setDirty :: "field list option \<Rightarrow> stateful \<Rightarrow> stateful outcome" where
  "setDirty flds r =
     (let r1 = r\<lparr>dirty := True\<rparr>;
          r2 = (if modified r1 = None then r1\<lparr>modified := Some []\<rparr> else r1)
      in case flds of
           None \<Rightarrow> Threw TypeError r2
         | Some fs \<Rightarrow> Returned (fold snapshot_field fs r2))"

text \<open>
  \<open>reject\<close>: the loop over the keys of \<open>modified\<close> (none when it was deleted), each
  tested with \<open>modified.hasOwnProperty(field)\<close>, which may throw; then the flags, the
  delete and the hook. A throw leaves the loop with what has been written so far and
  nothing after the loop is done.
\<close>

fun restore :: "fn_call \<Rightarrow> jsobject \<Rightarrow> string list \<Rightarrow> stateful \<Rightarrow> stateful outcome" where
  "restore call_fn m [] r = Returned r"
| "restore call_fn m (f # fs) r =
     (case hasOwnProperty_call call_fn m f of
        Inl e \<Rightarrow> Threw e r
      | Inr own \<Rightarrow>
          if \<not> own then restore call_fn m fs r
          else if typeof (lookup m f) \<noteq> ''function''
          then restore call_fn m fs (r\<lparr>data := AList.update f (lookup m f) (data r)\<rparr>)
          else restore call_fn m fs r)"

definition reject :: "fn_call \<Rightarrow> jsval \<Rightarrow> stateful \<Rightarrow> stateful outcome" where
  "reject call_fn silent r =
     (case (case modified r of
              None \<Rightarrow> Returned r
            | Some m \<Rightarrow> restore call_fn m (map fst m) r) of
        Threw e r1 \<Rightarrow> Threw e r1
      | Returned r1 \<Rightarrow>
          (let r2 = r1\<lparr>dirty := False\<rparr>;
               r3 = r2\<lparr>editing := False\<rparr>;
               r4 = r3\<lparr>modified := None\<rparr>
           in Returned (if silent \<noteq> JBool True then afterReject r4 else r4)))"

definition commit :: "jsval \<Rightarrow> stateful \<Rightarrow> stateful" where
  "commit silent r =
     (let r1 = r\<lparr>dirty := False\<rparr>;
          r2 = r1\<lparr>editing := False\<rparr>;
          r3 = r2\<lparr>modified := None\<rparr>
      in if silent \<noteq> JBool True then afterCommit r3 else r3)"

text \<open>
  A sequence of calls on one record, from the constructor on. A call that throws leaves
  the record as it was at the throw, and the next call goes on from there.
\<close>

datatype call = Set set_arguments | SetDirty | Commit jsval | Reject jsval

fun perform :: "fn_call \<Rightarrow> field list option \<Rightarrow> call \<Rightarrow> stateful \<Rightarrow> stateful" where
  "perform call_fn flds (Set args) r = state_of (set_stateful call_fn flds args r)"
| "perform call_fn flds SetDirty r = state_of (setDirty flds r)"
| "perform call_fn flds (Commit silent) r = commit silent r"
| "perform call_fn flds (Reject silent) r = state_of (reject call_fn silent r)"

definition run :: "fn_call \<Rightarrow> field list option \<Rightarrow> call list \<Rightarrow> stateful" where
  "run call_fn flds calls = fold (perform call_fn flds) calls Stateful_constructor"

text \<open>
  The invariant of the record: it is dirty, or its \<open>modified\<close> map is deleted or empty.
\<close>

definition tracked :: "stateful \<Rightarrow> bool" where
  "tracked r = (dirty r \<or> modified r = None \<or> modified r = Some [])"

section \<open>Ext.util.GeoLocation\<close>

text \<open>
  What the location provider hands over: a position (a timestamp and coordinates, any of
  which a provider may leave undefined) or an error. An error has a numeric \<open>code\<close>
  and, on a W3C provider, the numeric constants \<open>TIMEOUT\<close>, \<open>PERMISSION_DENIED\<close> and
  \<open>POSITION_UNAVAILABLE\<close>; \<open>None\<close> is a property the object does not have.
\<close>

record coordinates =
  latitude :: jsval
  longitude :: jsval
  accuracy :: jsval
  altitude :: jsval
  altitudeAccuracy :: jsval
  heading :: jsval
  speed :: jsval

record position =
  timestamp :: jsval
  coords :: coordinates

record position_error =
  code :: "jsnum option"
  TIMEOUT :: "jsnum option"
  PERMISSION_DENIED :: "jsnum option"
  POSITION_UNAVAILABLE :: "jsnum option"
  message :: jsval

text \<open>
  \<open>a == b\<close> between two such properties: undefined equals undefined, two numbers are
  equal when they are the same number and not NaN, a number never equals undefined.
\<close>

fun loose_eq :: "jsnum option \<Rightarrow> jsnum option \<Rightarrow> bool" where
  "loose_eq None None = True"
| "loose_eq (Some a) (Some b) = (a \<noteq> NaN \<and> a = b)"
| "loose_eq _ _ = False"

text \<open>
  What the wrapper does to the outside is kept as a trace. An argument is the wrapper
  itself (\<open>Me\<close>) or a value. \<open>Fired\<close> is a call of \<open>fireEvent\<close> with the event name, the
  arguments, and the position properties a listener reads off the wrapper at that moment;
  \<open>Called\<close> is \<open>callback.call(thisArg, args)\<close>.
\<close>

datatype arg = Me | Val jsval

datatype effect = Fired string "arg list" position | Called nat arg "arg list"

text \<open>
  A function handed to \<open>setTimeout\<close> by \<open>updateLocation\<close> is a closure
  \<open>failFunction(message)\<close> over the callback and the scope; the pair of functions handed
  to the provider is a closure over the same two, kept with the options passed along.
  The callback is a function of the caller's, known by its identity, or was not supplied.
\<close>

datatype task = Fail jsval "nat option" jsval

datatype request = Request "nat option" jsval jsobject

text \<open>
  The wrapper has the coordinate properties itself, next to its options. \<open>timers\<close> are
  the browser's pending timers, \<open>requests\<close> the pairs of functions the provider has been
  handed, \<open>trace\<close> the effects so far.
\<close>

record geolocation = coordinates +
  autoUpdate :: jsval
  timestamp :: jsval
  allowHighAccuracy :: jsval
  timeout :: jsval
  maximumAge :: jsval
  watchOperation :: jsval
  timers :: "task list"
  requests :: "request list"
  trace :: "effect list"

text \<open>The prototype's defaults.\<close>

definition GeoLocation_prototype :: geolocation where
  "GeoLocation_prototype =
     \<lparr>latitude = JNull, longitude = JNull, accuracy = JNull, altitude = JNull,
      altitudeAccuracy = JNull, heading = JNull, speed = JNull,
      autoUpdate = JBool True, timestamp = JNull, allowHighAccuracy = JBool False,
      timeout = JNum Infinity, maximumAge = JNum (Finite 0), watchOperation = JNull,
      timers = [], requests = [], trace = []\<rparr>"

definition seen :: "geolocation \<Rightarrow> position" where
  "seen g =
     \<lparr>position.timestamp = timestamp g,
      coords = \<lparr>latitude = latitude g, longitude = longitude g, accuracy = accuracy g,
                altitude = altitude g, altitudeAccuracy = altitudeAccuracy g,
                heading = heading g, speed = speed g\<rparr>\<rparr>"

text \<open>
  Modelled from the spec: \<open>fireEvent\<close> of the observable base class, which is not among
  the sources. The wrapper "raises update/error notifications": raising one is recorded
  in the trace and changes nothing else.
\<close>

definition fireEvent :: "string \<Rightarrow> arg list \<Rightarrow> geolocation \<Rightarrow> geolocation" where
  "fireEvent eventName args g = g\<lparr>trace := trace g @ [Fired eventName args (seen g)]\<rparr>"

definition fireUpdate :: "position \<Rightarrow> geolocation \<Rightarrow> geolocation" where
  "fireUpdate p g =
     (let g1 = g\<lparr>timestamp := position.timestamp p\<rparr>;
          g2 = g1\<lparr>latitude := latitude (coords p)\<rparr>;
          g3 = g2\<lparr>longitude := longitude (coords p)\<rparr>;
          g4 = g3\<lparr>accuracy := accuracy (coords p)\<rparr>;
          g5 = g4\<lparr>altitude := altitude (coords p)\<rparr>;
          g6 = g5\<lparr>altitudeAccuracy := altitudeAccuracy (coords p)\<rparr>;
          g7 = g6\<lparr>heading := (if typeof (heading (coords p)) = ''undefined'' then JNull
                                else heading (coords p))\<rparr>;
          g8 = g7\<lparr>speed := (if typeof (speed (coords p)) = ''undefined'' then JNull
                              else speed (coords p))\<rparr>
      in fireEvent ''locationupdate'' [Me] g8)"

definition fireError :: "position_error \<Rightarrow> geolocation \<Rightarrow> geolocation" where
  "fireError e g =
     fireEvent ''locationerror''
       [Me,
        Val (JBool (loose_eq (code e) (TIMEOUT e))),
        Val (JBool (loose_eq (code e) (PERMISSION_DENIED e))),
        Val (JBool (loose_eq (code e) (POSITION_UNAVAILABLE e))),
        Val (if nullish (message e) then JNull else message e)] g"

text \<open>
  \<open>parseOptions\<close> builds an object literal with two properties and assigns a third.
  \<open>this.timeout !== Infinity\<close> is strict: only the number Infinity itself is left out.
\<close>

definition parseOptions :: "geolocation \<Rightarrow> jsobject" where
  "parseOptions g =
     (let ret = [(''maximumAge'', maximumAge g), (''allowHighAccuracy'', allowHighAccuracy g)]
      in if timeout g \<noteq> JNum Infinity then AList.update ''timeout'' (timeout g) ret else ret)"

text \<open>
  \<open>callback.call(scope || me, ...)\<close> under \<open>if (callback)\<close>. The callback is the
  caller's code: called with these arguments it returns, or it throws an exception with
  some message, which is the parameter \<open>raises\<close> (\<open>None\<close>: it returns). A step that
  may be cut short by such an exception ends \<open>Done\<close> or \<open>Raised\<close> with the message, and
  keeps the effects made until then.
\<close>

type_synonym raising = "nat \<Rightarrow> arg list \<Rightarrow> jsval option"

datatype 'a attempt = Done 'a | Raised jsval 'a

fun after :: "'a attempt \<Rightarrow> 'a" where
  "after (Done s) = s"
| "after (Raised msg s) = s"

definition this_arg :: "jsval \<Rightarrow> arg" where
  "this_arg scope = (if truthy scope then Val scope else Me)"

definition invoke ::
  "raising \<Rightarrow> nat option \<Rightarrow> jsval \<Rightarrow> arg list \<Rightarrow> geolocation \<Rightarrow> geolocation attempt" where
  "invoke raises callback scope args g =
     (case callback of
        None \<Rightarrow> Done g
      | Some f \<Rightarrow>
          (let g' = g\<lparr>trace := trace g @ [Called f (this_arg scope) args]\<rparr>
           in case raises f args of None \<Rightarrow> Done g' | Some msg \<Rightarrow> Raised msg g'))"

text \<open>
  The local \<open>failFunction(message, error)\<close> of \<open>updateLocation\<close> and its success
  callback; \<open>callback\<close> and \<open>scope\<close> are the variables they close over. An exception
  from the callback skips the legacy \<open>update\<close> event and goes to whoever called the
  closure.
\<close>

definition failFunction ::
  "raising \<Rightarrow> nat option \<Rightarrow> jsval \<Rightarrow> jsval \<Rightarrow> position_error option \<Rightarrow> geolocation
     \<Rightarrow> geolocation attempt" where
  "failFunction raises callback scope msg error g =
     (let g1 = (case error of
                  Some e \<Rightarrow> fireError e g
                | None \<Rightarrow>
                    fireEvent ''locationerror''
                      [Me, Val (JBool False), Val (JBool False), Val (JBool True), Val msg] g)
      in case invoke raises callback scope [Val JNull, Me] g1 of
           Raised m g2 \<Rightarrow> Raised m g2
         | Done g2 \<Rightarrow> Done (fireEvent ''update'' [Val (JBool False), Me] g2))"

definition success ::
  "raising \<Rightarrow> nat option \<Rightarrow> jsval \<Rightarrow> position \<Rightarrow> geolocation \<Rightarrow> geolocation attempt" where
  "success raises callback scope p g =
     (let g1 = fireUpdate p g
      in case invoke raises callback scope [Me, Me] g1 of
           Raised m g2 \<Rightarrow> Raised m g2
         | Done g2 \<Rightarrow> Done (fireEvent ''update'' [Me, Me] g2))"

text \<open>
  The provider answers by calling one of the two functions it was handed: the first with a
  position, the second with an error.
\<close>

datatype provider_reply = Delivers position | Reports position_error

definition deliver ::
  "raising \<Rightarrow> nat option \<Rightarrow> jsval \<Rightarrow> provider_reply \<Rightarrow> geolocation \<Rightarrow> geolocation attempt" where
  "deliver raises callback scope reply g =
     (case reply of
        Delivers p \<Rightarrow> success raises callback scope p g
      | Reports e \<Rightarrow> failFunction raises callback scope JNull (Some e) g)"

text \<open>
  What \<open>this.provider.getCurrentPosition(...)\<close> does before control comes back to
  \<open>updateLocation\<close>. With no provider (\<open>null\<close>) the property access throws. Otherwise the
  provider is handed the two functions; it may answer any number of times at once, inside
  the call, and then returns or throws an exception of its own. An exception that a
  callback raises during such an answer passes through the provider into the
  \<open>try\<close> of \<open>updateLocation\<close>, as the provider's own do.
\<close>

datatype provider_call = NoProvider jsval | Invocation "provider_reply list" "jsval option"

fun deliver_all ::
  "raising \<Rightarrow> nat option \<Rightarrow> jsval \<Rightarrow> provider_reply list \<Rightarrow> geolocation \<Rightarrow> geolocation attempt" where
  "deliver_all raises callback scope [] g = Done g"
| "deliver_all raises callback scope (reply # replies) g =
     (case deliver raises callback scope reply g of
        Raised m g' \<Rightarrow> Raised m g'
      | Done g' \<Rightarrow> deliver_all raises callback scope replies g')"

text \<open>
  \<open>updateLocation\<close>. \<open>supports\<close> is \<open>Ext.supports.GeoLocation\<close>. Whatever is thrown
  inside the \<open>try\<close> is caught and \<open>failFunction(e.message)\<close> is left to a timer.
\<close>

definition updateLocation ::
  "raising \<Rightarrow> bool \<Rightarrow> provider_call \<Rightarrow> nat option \<Rightarrow> jsval \<Rightarrow> jsobject option \<Rightarrow> geolocation
     \<Rightarrow> geolocation" where
  "updateLocation raises supports provider callback scope positionOptions g =
     (if \<not> supports then g\<lparr>timers := timers g @ [Fail JNull callback scope]\<rparr>
      else case provider of
             NoProvider msg \<Rightarrow> g\<lparr>timers := timers g @ [Fail msg callback scope]\<rparr>
           | Invocation now thrown \<Rightarrow>
               (let options = (case positionOptions of
                                 Some opts \<Rightarrow> opts
                               | None \<Rightarrow> parseOptions g);
                    g1 = g\<lparr>requests := requests g @ [Request callback scope options]\<rparr>
                in case deliver_all raises callback scope now g1 of
                     Raised m g2 \<Rightarrow> g2\<lparr>timers := timers g2 @ [Fail m callback scope]\<rparr>
                   | Done g2 \<Rightarrow>
                       (case thrown of
                          Some m \<Rightarrow> g2\<lparr>timers := timers g2 @ [Fail m callback scope]\<rparr>
                        | None \<Rightarrow> g2)))"

text \<open>
  What happens later: the browser runs the pending timer number \<open>i\<close>, once, or the
  provider answers through the functions of request number \<open>i\<close>. Nothing in the source
  keeps the provider from answering again, so the request stays. An exception from the
  callback is then nobody's to catch; the effects made stay.
\<close>

definition run_timer :: "raising \<Rightarrow> nat \<Rightarrow> geolocation \<Rightarrow> geolocation attempt" where
  "run_timer raises i g =
     (if i < length (timers g)
      then (case timers g ! i of
              Fail msg callback scope \<Rightarrow>
                failFunction raises callback scope msg None
                  (g\<lparr>timers := take i (timers g) @ drop (Suc i) (timers g)\<rparr>))
      else Done g)"

definition respond ::
  "raising \<Rightarrow> nat \<Rightarrow> provider_reply \<Rightarrow> geolocation \<Rightarrow> geolocation attempt" where
  "respond raises i reply g =
     (if i < length (requests g)
      then (case requests g ! i of
              Request callback scope opts \<Rightarrow> deliver raises callback scope reply g)
      else Done g)"

text \<open>
  One acquisition from the call to its end: \<open>updateLocation\<close>, then the timer this call
  has left (if any) runs, then the provider gives the answers \<open>later\<close>, in order, to the
  request of this call (if it was handed one).
\<close>

definition acquire ::
  "raising \<Rightarrow> bool \<Rightarrow> provider_call \<Rightarrow> provider_reply list \<Rightarrow> nat option \<Rightarrow> jsval
     \<Rightarrow> jsobject option \<Rightarrow> geolocation \<Rightarrow> geolocation" where
  "acquire raises supports provider later callback scope positionOptions g =
     (let g1 = updateLocation raises supports provider callback scope positionOptions g;
          g2 = after (run_timer raises (length (timers g)) g1)
      in fold (\<lambda>reply s. after (respond raises (length (requests g)) reply s)) later g2)"

text \<open>
  Reading a trace: the \<open>locationupdate\<close> and \<open>locationerror\<close> events in it, and the
  callback invocations in it.
\<close>

fun raised :: "effect list \<Rightarrow> string list" where
  "raised [] = []"
| "raised (Fired n args p # es) =
     (if n = ''locationupdate'' \<or> n = ''locationerror'' then n # raised es else raised es)"
| "raised (Called f t args # es) = raised es"

fun invoked :: "effect list \<Rightarrow> (nat \<times> arg \<times> arg list) list" where
  "invoked [] = []"
| "invoked (Fired n args p # es) = invoked es"
| "invoked (Called f t args # es) = (f, t, args) # invoked es"

text \<open>
  The provider's side of the contract of a one-shot request. \<open>returns\<close>: the callback,
  if supplied, does not throw when given this answer. \<open>answers_once\<close>: where the provider
  is invoked, it either throws without having answered and never answers, or it returns
  and answers exactly once, inside the call or later; an answer inside the call is not cut
  short by the callback. \<open>delivered\<close>: that one answer is a position.
\<close>

definition returns :: "raising \<Rightarrow> nat option \<Rightarrow> provider_reply \<Rightarrow> bool" where
  "returns raises callback reply =
     (case callback of
        None \<Rightarrow> True
      | Some f \<Rightarrow>
          raises f (case reply of Delivers p \<Rightarrow> [Me, Me] | Reports e \<Rightarrow> [Val JNull, Me])
            = None)"

definition answers_once ::
  "raising \<Rightarrow> bool \<Rightarrow> provider_call \<Rightarrow> provider_reply list \<Rightarrow> nat option \<Rightarrow> bool" where
  "answers_once raises supports provider later callback =
     (if supports
      then (case provider of
              NoProvider msg \<Rightarrow> True
            | Invocation now thrown \<Rightarrow>
                (case thrown of
                   Some msg \<Rightarrow> now = [] \<and> later = []
                 | None \<Rightarrow>
                     (case now of
                        [] \<Rightarrow> length later = 1
                      | reply # others \<Rightarrow>
                          others = [] \<and> later = [] \<and> returns raises callback reply)))
      else True)"

definition delivered :: "bool \<Rightarrow> provider_call \<Rightarrow> provider_reply list \<Rightarrow> bool" where
  "delivered supports provider later =
     (supports \<and>
      (case provider of
         NoProvider msg \<Rightarrow> False
       | Invocation now thrown \<Rightarrow>
           thrown = None \<and>
           (case now @ later of
              [] \<Rightarrow> False
            | reply # others \<Rightarrow> (case reply of Delivers p \<Rightarrow> True | Reports e \<Rightarrow> False))))"

text \<open>Inputs used as examples below.\<close>

definition no_functions :: fn_call where
  "no_functions f k = Inr JUndefined"

definition never_throws :: raising where
  "never_throws f args = None"

definition always_throws :: raising where
  "always_throws f args = Some (JStr ''boom'')"

definition somewhere :: position where
  "somewhere =
     \<lparr>position.timestamp = JNum (Finite 1000),
      coords = \<lparr>latitude = JNum (Finite 48), longitude = JNum (Finite 2),
                accuracy = JNum (Finite 10), altitude = JNull, altitudeAccuracy = JNull,
                heading = JUndefined, speed = JUndefined\<rparr>\<rparr>"



section \<open>getPage\<close>

text \<open>
  The page helper makes a synchronous GET. The browser is what it reads:
  \<open>window.XMLHttpRequest\<close> is absent (\<open>None\<close>) or gives, for a url, a request whose
  \<open>send\<close> throws or which ends with a \<open>responseText\<close> that is a string or null.
  \<open>eval\<close> is the browser's too: it yields a value or throws. The assignment to the
  global \<open>xmlhttp\<close> is not kept.
\<close>

datatype xhr = SendThrows js_error | Responds "string option"

definition getPage ::
  "(string \<Rightarrow> xhr) option \<Rightarrow> (string \<Rightarrow> js_error + jsval) \<Rightarrow> string \<Rightarrow> jsval
     \<Rightarrow> js_error + jsval" where
  "getPage XMLHttpRequest js_eval url execute =
     (case XMLHttpRequest of
        None \<Rightarrow> Inr (JNum (Finite (- 1)))
      | Some request \<Rightarrow>
          (case request url of
             SendThrows e \<Rightarrow> Inl e
           | Responds None \<Rightarrow> Inr (JNum (Finite (- 1)))
           | Responds (Some responseText) \<Rightarrow>
               if truthy execute then js_eval (''('' @ responseText @ '')'')
               else Inr (JStr responseText)))"

section \<open>Properties of Ext.util.Stateful\<close>

subsection \<open>What set does and does not touch\<close>

lemma set_one_modified: "modified (set_one flds f v r) = modified r"
  by (simp add: set_one_def afterEdit_def Let_def)

lemma set_one_dirty: "dirty (set_one flds f v r)"
  by (simp add: set_one_def afterEdit_def Let_def)

lemma set_one_isModified: "isModified call_fn g (set_one flds f v r) = isModified call_fn g r"
  by (simp add: isModified_def set_one_modified)

text \<open>
  C1. The claim: after \<open>set(f, v)\<close> on a record that is not being edited,
  \<open>isModified(f)\<close> is true and \<open>reject()\<close> puts back the value the field had before.
  \<open>set\<close> writes the data bag and the dirty flag only; nothing but \<open>setDirty\<close> ever writes
  \<open>modified\<close>. On a fresh record, after \<open>set('name', 'Ann')\<close>, \<open>isModified('name')\<close>
  returns false, and \<open>reject()\<close> returns leaving \<open>'Ann'\<close> in the bag although the field
  was undefined before the set.
\<close>

theorem set_then_reject_keeps_new_value:
  "isModified call_fn ''name'' (set_one None ''name'' (JStr ''Ann'') Stateful_constructor)
     = Inr False
   \<and> get ''name'' Stateful_constructor = JUndefined
   \<and> (\<exists>r'. reject call_fn JUndefined
               (set_one None ''name'' (JStr ''Ann'') Stateful_constructor) = Returned r'
          \<and> get ''name'' r' = JStr ''Ann'')"
  by (simp add: isModified_def hasOwnProperty_call_def set_one_def afterEdit_def Let_def
      Stateful_constructor_def hasOwnProperty_def get_def lookup_def reject_def afterReject_def)

subsection \<open>Modified implies dirty\<close>

lemma tracked_set_one: "tracked (set_one flds f v r)"
  by (simp add: tracked_def set_one_dirty)

lemma set_plain_keeps:
  "tracked r \<Longrightarrow> tracked (snd (state_of (set_plain call_fn flds obj ks r)))"
proof (induction ks arbitrary: r)
  case Nil
  then show ?case by simp
next
  case (Cons key keys)
  have plain: "tracked (snd (state_of (set_plain call_fn flds obj keys r)))"
    using Cons.prems by (rule Cons.IH)
  have fresh: "tracked (snd (state_of (set_plain call_fn flds obj keys (set_one flds key v r))))"
    for v
    by (rule Cons.IH) (rule tracked_set_one)
  show ?case
  proof (cases "set_plain call_fn flds obj keys r")
    case (Returned p)
    with plain fresh Cons.prems show ?thesis
      by (cases p) (auto split: option.splits sum.splits)
  next
    case (Threw e p)
    with plain fresh Cons.prems show ?thesis
      by (cases p) (auto split: option.splits sum.splits)
  qed
qed

lemma set_converted_keeps: "tracked r \<Longrightarrow> tracked (set_converted flds obj cs r)"
  by (induction flds obj cs r rule: set_converted.induct) (auto simp: tracked_set_one)

lemma set_stateful_keeps:
  "tracked r \<Longrightarrow> tracked (state_of (set_stateful call_fn flds args r))"
proof (cases args)
  case (One f v)
  then show ?thesis by (simp add: tracked_set_one)
next
  case (Many obj)
  assume t: "tracked r"
  have k: "tracked (snd (state_of (set_plain call_fn flds obj (map fst obj) r)))"
    using t by (rule set_plain_keeps)
  show ?thesis
  proof (cases "set_plain call_fn flds obj (map fst obj) r")
    case (Returned p)
    with k Many show ?thesis
      by (cases p) (simp add: set_converted_keeps)
  next
    case (Threw e p)
    with k Many show ?thesis
      by (cases p) simp
  qed
qed

lemma fold_snapshot_dirty: "dirty (fold snapshot_field fs r) = dirty r"
  by (induction fs arbitrary: r) (auto simp: snapshot_field_def)

lemma setDirty_keeps: "tracked (state_of (setDirty flds r))"
  by (cases flds) (auto simp: setDirty_def tracked_def Let_def fold_snapshot_dirty)

lemma commit_keeps: "tracked (commit silent r)"
  by (simp add: commit_def tracked_def afterCommit_def Let_def)

lemma restore_flags:
  "dirty (state_of (restore call_fn m ks r)) = dirty r
   \<and> modified (state_of (restore call_fn m ks r)) = modified r
   \<and> editing (state_of (restore call_fn m ks r)) = editing r"
  by (induction call_fn m ks r rule: restore.induct) (auto split: sum.splits)

lemma restore_keeps: "tracked r \<Longrightarrow> tracked (state_of (restore call_fn m ks r))"
  by (simp add: tracked_def restore_flags)

lemma reject_keeps: "tracked r \<Longrightarrow> tracked (state_of (reject call_fn silent r))"
proof (cases "modified r")
  case None
  then show ?thesis
    by (simp add: reject_def tracked_def afterReject_def Let_def)
next
  case (Some m)
  assume t: "tracked r"
  show ?thesis
  proof (cases "restore call_fn m (map fst m) r")
    case (Returned r1)
    with Some show ?thesis
      by (simp add: reject_def tracked_def afterReject_def Let_def)
  next
    case (Threw e r1)
    with restore_keeps [OF t, of call_fn m "map fst m"] Some show ?thesis
      by (simp add: reject_def)
  qed
qed

lemma perform_keeps: "tracked r \<Longrightarrow> tracked (perform call_fn flds c r)"
  by (cases c) (simp_all add: set_stateful_keeps setDirty_keeps commit_keeps reject_keeps)

lemma fold_perform_keeps: "tracked r \<Longrightarrow> tracked (fold (perform call_fn flds) calls r)"
  by (induction calls arbitrary: r) (simp_all add: perform_keeps)

lemma run_tracked: "tracked (run call_fn flds calls)"
  unfolding run_def by (rule fold_perform_keeps) (simp add: tracked_def Stateful_constructor_def)

text \<open>
  C2. For every record reached from the constructor by a sequence of \<open>set\<close>, \<open>setDirty\<close>,
  \<open>commit\<close> and \<open>reject\<close> calls (each call counted whether it returns or throws), if the
  \<open>modified\<close> map exists and is not empty then the record is dirty.
\<close>

theorem modified_implies_dirty:
  "(\<exists>m. modified (run call_fn flds calls) = Some m \<and> m \<noteq> [])
   \<longrightarrow> dirty (run call_fn flds calls)"
  using run_tracked [of call_fn flds calls] by (auto simp: tracked_def)

theorem modified_implies_dirty_witness:
  "(\<exists>m. modified (run no_functions
                      (Some [\<lparr>name = ''id'', convert = None, custom_convert = False\<rparr>])
                      [Set (One ''id'' (JNum (Finite 7))), SetDirty]) = Some m \<and> m \<noteq> [])
   \<and> dirty (run no_functions
               (Some [\<lparr>name = ''id'', convert = None, custom_convert = False\<rparr>])
               [Set (One ''id'' (JNum (Finite 7))), SetDirty])"
  using modified_implies_dirty
    [of no_functions
        "Some [\<lparr>name = ''id'', convert = None, custom_convert = False\<rparr>]"
        "[Set (One ''id'' (JNum (Finite 7))), SetDirty]"]
  by (simp add: run_def setDirty_def Stateful_constructor_def snapshot_field_def Let_def
      set_one_def fields_get_def afterEdit_def)

subsection \<open>Commit\<close>

text \<open>
  C6. Setting a single field returns with the dirty flag true; after \<open>commit(silent)\<close> on
  any record (the one just set included) \<open>dirty\<close> and \<open>editing\<close> are false and
  \<open>isModified(g)\<close> returns false for every field name \<open>g\<close>.
\<close>

theorem set_dirty_commit_clean:
  "(\<exists>r'. set_stateful call_fn flds (One f v) r = Returned r' \<and> dirty r')
   \<and> \<not> dirty (commit silent s) \<and> \<not> editing (commit silent s)
   \<and> (\<forall>g. isModified call_fn g (commit silent s) = Inr False)"
  by (simp add: set_one_dirty commit_def afterCommit_def isModified_def Let_def)

text \<open>
  C8. \<open>commit(silent)\<close> leaves the data bag as it was: the record after the call is the
  record before it with \<open>dirty\<close>, \<open>editing\<close> and \<open>modified\<close> reset (and the call of the
  \<open>afterCommit\<close> hook noted when not silent).
\<close>

theorem commit_frame:
  "data (commit silent r) = data r
   \<and> commit silent r =
       r\<lparr>dirty := False, editing := False, modified := None,
         notified := notified (commit silent r)\<rparr>"
  by (simp add: commit_def afterCommit_def Let_def)

subsection \<open>Reject\<close>






section \<open>Properties of Ext.util.GeoLocation\<close>

text \<open>
  C3. \<open>fireError\<close> changes nothing but the trace, to which it adds exactly one
  \<open>locationerror\<close> event: the wrapper, the three comparisons of \<open>error.code\<close> with
  \<open>error.TIMEOUT\<close>, \<open>error.PERMISSION_DENIED\<close> and \<open>error.POSITION_UNAVAILABLE\<close>, and the
  provider's message, null standing for an undefined one.
\<close>

theorem fireError_relays_code:
  "fireError e g =
     g\<lparr>trace := trace g @
        [Fired ''locationerror''
           [Me,
            Val (JBool (loose_eq (code e) (TIMEOUT e))),
            Val (JBool (loose_eq (code e) (PERMISSION_DENIED e))),
            Val (JBool (loose_eq (code e) (POSITION_UNAVAILABLE e))),
            Val (if message e = JUndefined then JNull else message e)]
           (seen g)]\<rparr>"
  by (simp add: fireError_def fireEvent_def nullish_def)

text \<open>
  C4. The object \<open>parseOptions\<close> returns has \<open>maximumAge\<close> and \<open>allowHighAccuracy\<close> equal
  to the wrapper's, and has a \<open>timeout\<close> property, equal to the wrapper's, exactly when
  the wrapper's timeout is not Infinity.
\<close>

theorem parseOptions_translates:
  "map_of (parseOptions g) ''maximumAge'' = Some (maximumAge g)
   \<and> map_of (parseOptions g) ''allowHighAccuracy'' = Some (allowHighAccuracy g)
   \<and> map_of (parseOptions g) ''timeout'' =
       (if timeout g = JNum Infinity then None else Some (timeout g))
   \<and> hasOwnProperty (parseOptions g) ''timeout'' = (timeout g \<noteq> JNum Infinity)"
  by (simp add: parseOptions_def hasOwnProperty_def Let_def)

lemma parseOptions_default:
  "parseOptions GeoLocation_prototype =
     [(''maximumAge'', JNum (Finite 0)), (''allowHighAccuracy'', JBool False)]"
  by (simp add: parseOptions_def GeoLocation_prototype_def)

text \<open>
  C7. After \<open>fireUpdate\<close> the wrapper's timestamp, latitude, longitude, accuracy,
  altitude and altitudeAccuracy are the delivered position's, heading and speed are the
  delivered ones or null where the provider left them undefined, and one \<open>locationupdate\<close>
  event carrying the wrapper has been added to the trace, seen with the new values.
\<close>

theorem fireUpdate_postcondition:
  "timestamp (fireUpdate p g) = position.timestamp p
   \<and> latitude (fireUpdate p g) = latitude (coords p)
   \<and> longitude (fireUpdate p g) = longitude (coords p)
   \<and> accuracy (fireUpdate p g) = accuracy (coords p)
   \<and> altitude (fireUpdate p g) = altitude (coords p)
   \<and> altitudeAccuracy (fireUpdate p g) = altitudeAccuracy (coords p)
   \<and> heading (fireUpdate p g) =
       (if heading (coords p) = JUndefined then JNull else heading (coords p))
   \<and> speed (fireUpdate p g) =
       (if speed (coords p) = JUndefined then JNull else speed (coords p))
   \<and> trace (fireUpdate p g) =
       trace g @ [Fired ''locationupdate'' [Me] (seen (fireUpdate p g))]"
proof -
  have undef: "(typeof v = ''undefined'') = (v = JUndefined)" for v
    by (cases v) simp_all
  show ?thesis
    by (simp add: fireUpdate_def fireEvent_def seen_def Let_def undef)
qed

subsection \<open>One-shot acquisition\<close>

lemma raised_append: "raised (xs @ ys) = raised xs @ raised ys"
  by (induction xs rule: raised.induct) auto

lemma invoked_append: "invoked (xs @ ys) = invoked xs @ invoked ys"
  by (induction xs rule: invoked.induct) auto

lemma invoke_effect:
  "trace (after (invoke raises callback scope args g)) =
     trace g @ (case callback of None \<Rightarrow> [] | Some f \<Rightarrow> [Called f (this_arg scope) args])
   \<and> timers (after (invoke raises callback scope args g)) = timers g
   \<and> requests (after (invoke raises callback scope args g)) = requests g"
  by (cases callback) (auto simp: invoke_def Let_def split: option.splits)

lemma failFunction_effect:
  "\<exists>new. trace (after (failFunction raises callback scope msg error g)) = trace g @ new
     \<and> raised new = [''locationerror'']
     \<and> invoked new =
         (case callback of None \<Rightarrow> [] | Some f \<Rightarrow> [(f, this_arg scope, [Val JNull, Me])])
     \<and> timers (after (failFunction raises callback scope msg error g)) = timers g
     \<and> requests (after (failFunction raises callback scope msg error g)) = requests g"
proof -
  define g1 where "g1 = (case error of
                  Some e \<Rightarrow> fireError e g
                | None \<Rightarrow>
                    fireEvent ''locationerror''
                      [Me, Val (JBool False), Val (JBool False), Val (JBool True), Val msg] g)"
  have g1: "\<exists>a v. trace g1 = trace g @ [Fired ''locationerror'' a v]"
    "timers g1 = timers g" "requests g1 = requests g"
    by (cases error; simp add: g1_def fireError_def fireEvent_def)+
  then obtain a v where t1: "trace g1 = trace g @ [Fired ''locationerror'' a v]" by blast
  note inv = invoke_effect [of raises callback scope "[Val JNull, Me]" g1]
  show ?thesis
  proof (cases "invoke raises callback scope [Val JNull, Me] g1")
    case (Done g2)
    with inv t1 g1(2,3) show ?thesis
      by (cases callback)
         (simp_all add: failFunction_def g1_def [symmetric] fireEvent_def)
  next
    case (Raised m g2)
    with inv t1 g1(2,3) show ?thesis
      by (cases callback)
         (simp_all add: failFunction_def g1_def [symmetric] fireEvent_def)
  qed
qed

lemma success_effect:
  "\<exists>new. trace (after (success raises callback scope p g)) = trace g @ new
     \<and> raised new = [''locationupdate'']
     \<and> invoked new =
         (case callback of None \<Rightarrow> [] | Some f \<Rightarrow> [(f, this_arg scope, [Me, Me])])
     \<and> timers (after (success raises callback scope p g)) = timers g
     \<and> requests (after (success raises callback scope p g)) = requests g"
proof -
  define g1 where "g1 = fireUpdate p g"
  have g1: "\<exists>v. trace g1 = trace g @ [Fired ''locationupdate'' [Me] v]"
    "timers g1 = timers g" "requests g1 = requests g"
    by (simp_all add: g1_def fireUpdate_def fireEvent_def Let_def)
  then obtain v where t1: "trace g1 = trace g @ [Fired ''locationupdate'' [Me] v]" by blast
  note inv = invoke_effect [of raises callback scope "[Me, Me]" g1]
  show ?thesis
  proof (cases "invoke raises callback scope [Me, Me] g1")
    case (Done g2)
    with inv t1 g1(2,3) show ?thesis
      by (cases callback)
         (simp_all add: success_def g1_def [symmetric] fireEvent_def Let_def)
  next
    case (Raised m g2)
    with inv t1 g1(2,3) show ?thesis
      by (cases callback)
         (simp_all add: success_def g1_def [symmetric] fireEvent_def Let_def)
  qed
qed

lemma deliver_effect:
  "\<exists>new. trace (after (deliver raises callback scope reply g)) = trace g @ new
     \<and> raised new =
         [case reply of Delivers p \<Rightarrow> ''locationupdate'' | Reports e \<Rightarrow> ''locationerror'']
     \<and> invoked new =
         (case callback of
            None \<Rightarrow> []
          | Some f \<Rightarrow>
              [(f, this_arg scope,
                case reply of Delivers p \<Rightarrow> [Me, Me] | Reports e \<Rightarrow> [Val JNull, Me])])
     \<and> timers (after (deliver raises callback scope reply g)) = timers g
     \<and> requests (after (deliver raises callback scope reply g)) = requests g"
proof (cases reply)
  case (Delivers p)
  with success_effect [of raises callback scope p g] show ?thesis
    by (auto simp: deliver_def split: option.splits)
next
  case (Reports e)
  with failFunction_effect [of raises callback scope JNull "Some e" g] show ?thesis
    by (auto simp: deliver_def split: option.splits)
qed

lemma deliver_returns:
  "returns raises callback reply \<Longrightarrow> \<exists>g'. deliver raises callback scope reply g = Done g'"
  by (cases reply; cases callback)
     (simp_all add: returns_def deliver_def success_def failFunction_def invoke_def Let_def)

lemma respond_out_of_range:
  "length (requests s) \<le> i \<Longrightarrow>
     fold (\<lambda>reply s. after (respond raises i reply s)) later s = s"
  by (induction later) (simp_all add: respond_def)

lemma run_timer_out_of_range: "length (timers s) \<le> i \<Longrightarrow> run_timer raises i s = Done s"
  by (simp add: run_timer_def)

lemma run_timer_last:
  "after (run_timer raises (length ts) (s\<lparr>timers := ts @ [Fail msg callback scope]\<rparr>)) =
     after (failFunction raises callback scope msg None (s\<lparr>timers := ts\<rparr>))"
  by (simp add: run_timer_def)

lemma respond_last:
  "respond raises (length rs) reply (s\<lparr>requests := rs @ [Request callback scope opts]\<rparr>) =
     deliver raises callback scope reply (s\<lparr>requests := rs @ [Request callback scope opts]\<rparr>)"
  by (simp add: respond_def)

lemma timer_case:
  assumes g1: "g1 = s\<lparr>timers := timers g @ [Fail msg callback scope]\<rparr>"
    and s: "trace s = trace g" "length (requests s) \<le> i \<or> later = []"
  shows "\<exists>new. trace (fold (\<lambda>reply s. after (respond raises i reply s)) later
                   (after (run_timer raises (length (timers g)) g1))) = trace g @ new
     \<and> raised new = [''locationerror'']
     \<and> invoked new =
         (case callback of None \<Rightarrow> [] | Some f \<Rightarrow> [(f, this_arg scope, [Val JNull, Me])])
     \<and> timers (fold (\<lambda>reply s. after (respond raises i reply s)) later
                   (after (run_timer raises (length (timers g)) g1))) = timers g"
proof -
  let ?s' = "s\<lparr>timers := timers g\<rparr>"
  let ?g2 = "after (failFunction raises callback scope msg None ?s')"
  have run: "after (run_timer raises (length (timers g)) g1) = ?g2"
    unfolding g1 by (rule run_timer_last)
  from failFunction_effect [of raises callback scope msg None ?s'] obtain new where
    new: "trace ?g2 = trace ?s' @ new" "raised new = [''locationerror'']"
      "invoked new =
         (case callback of None \<Rightarrow> [] | Some f \<Rightarrow> [(f, this_arg scope, [Val JNull, Me])])"
      "timers ?g2 = timers ?s'" "requests ?g2 = requests ?s'"
    by blast
  have "fold (\<lambda>reply s. after (respond raises i reply s)) later ?g2 = ?g2"
  proof (cases "later = []")
    case True
    then show ?thesis by simp
  next
    case False
    with s(2) new(5) have "length (requests ?g2) \<le> i" by simp
    then show ?thesis by (rule respond_out_of_range)
  qed
  with run new s(1) show ?thesis by simp
qed

text \<open>
  C5. Where the provider keeps its side (\<open>answers_once\<close>: it throws without answering, or
  returns and answers exactly once, inside the call or later, an answer inside the call
  not being cut short by an exception from the callback), and also where geolocation is
  unsupported or there is no provider, one acquisition adds to the trace a part that
  holds exactly one of \<open>locationupdate\<close> (the answer is a position) and \<open>locationerror\<close>
  (every other case), and, when a callback was supplied, exactly one invocation of it:
  with the wrapper first on success, with null first on failure. No timer of the call
  stays pending.
\<close>

theorem updateLocation_notifies_once:
  assumes "answers_once raises supports provider later callback"
  shows "\<exists>new. trace (acquire raises supports provider later callback scope positionOptions g)
              = trace g @ new
     \<and> raised new =
         [if delivered supports provider later then ''locationupdate'' else ''locationerror'']
     \<and> invoked new =
         (case callback of
            None \<Rightarrow> []
          | Some f \<Rightarrow>
              [(f, this_arg scope,
                if delivered supports provider later then [Me, Me] else [Val JNull, Me])])
     \<and> timers (acquire raises supports provider later callback scope positionOptions g)
         = timers g"
proof (cases supports)
  case False
  have "updateLocation raises supports provider callback scope positionOptions g
          = g\<lparr>timers := timers g @ [Fail JNull callback scope]\<rparr>"
    using False by (simp add: updateLocation_def)
  from timer_case [OF this, of "length (requests g)" later raises] False show ?thesis
    by (simp add: acquire_def delivered_def Let_def)
next
  case True
  show ?thesis
  proof (cases provider)
    case (NoProvider msg)
    have "updateLocation raises supports provider callback scope positionOptions g
            = g\<lparr>timers := timers g @ [Fail msg callback scope]\<rparr>"
      using True NoProvider by (simp add: updateLocation_def)
    from timer_case [OF this, of "length (requests g)" later raises] NoProvider show ?thesis
      by (simp add: acquire_def delivered_def Let_def)
  next
    case (Invocation now thrown)
    define options where
      "options = (case positionOptions of Some opts \<Rightarrow> opts | None \<Rightarrow> parseOptions g)"
    define g1 where "g1 = g\<lparr>requests := requests g @ [Request callback scope options]\<rparr>"
    show ?thesis
    proof (cases thrown)
      case (Some m)
      with assms True Invocation have e: "now = []" "later = []"
        by (simp_all add: answers_once_def)
      have "updateLocation raises supports provider callback scope positionOptions g
              = g1\<lparr>timers := timers g @ [Fail m callback scope]\<rparr>"
        using True Invocation Some e
        by (simp add: updateLocation_def g1_def options_def Let_def)
      from timer_case [OF this, of "length (requests g)" later raises] e Invocation Some
      show ?thesis
        by (simp add: acquire_def delivered_def Let_def g1_def)
    next
      case None
      show ?thesis
      proof (cases now)
        case Nil
        with assms True Invocation None obtain reply where later: "later = [reply]"
          by (cases later) (auto simp: answers_once_def)
        have u: "updateLocation raises supports provider callback scope positionOptions g = g1"
          using True Invocation None Nil
          by (simp add: updateLocation_def g1_def options_def Let_def)
        have r: "run_timer raises (length (timers g)) g1 = Done g1"
          by (rule run_timer_out_of_range) (simp add: g1_def)
        have a: "acquire raises supports provider later callback scope positionOptions g
                   = after (deliver raises callback scope reply g1)"
          using u r later
            respond_last [where raises = raises and rs = "requests g" and reply = reply
              and s = g and callback = callback and scope = scope and opts = options]
          by (simp add: acquire_def Let_def g1_def)
        from deliver_effect [of raises callback scope reply g1] a True Invocation None Nil later
        show ?thesis
          by (cases reply) (auto simp: delivered_def g1_def split: option.splits)
      next
        case (Cons reply others)
        with assms True Invocation None have e: "others = []" "later = []"
          and ret: "returns raises callback reply"
          by (simp_all add: answers_once_def)
        from deliver_returns [OF ret, of scope g1] obtain g2 where
          d: "deliver raises callback scope reply g1 = Done g2" by blast
        have u: "updateLocation raises supports provider callback scope positionOptions g = g2"
          using True Invocation None Cons e d
          by (simp add: updateLocation_def g1_def options_def Let_def)
        from deliver_effect [of raises callback scope reply g1] d
        have eff: "\<exists>new. trace g2 = trace g1 @ new
           \<and> raised new =
               [case reply of Delivers p \<Rightarrow> ''locationupdate'' | Reports e \<Rightarrow> ''locationerror'']
           \<and> invoked new =
               (case callback of
                  None \<Rightarrow> []
                | Some f \<Rightarrow>
                    [(f, this_arg scope,
                      case reply of Delivers p \<Rightarrow> [Me, Me] | Reports e \<Rightarrow> [Val JNull, Me])])"
          and t: "timers g2 = timers g1"
          by auto
        have r: "run_timer raises (length (timers g)) g2 = Done g2"
          by (rule run_timer_out_of_range) (simp add: t g1_def)
        have a: "acquire raises supports provider later callback scope positionOptions g = g2"
          using u r e by (simp add: acquire_def Let_def)
        from eff t a True Invocation None Cons e show ?thesis
          by (cases reply) (auto simp: delivered_def g1_def split: option.splits)
      qed
    qed
  qed
qed

theorem updateLocation_notifies_once_witness:
  "answers_once never_throws True (Invocation [] None) [Delivers somewhere] (Some 0)
   \<and> (\<exists>new. trace (acquire never_throws True (Invocation [] None) [Delivers somewhere]
                      (Some 0) JUndefined None GeoLocation_prototype)
               = trace GeoLocation_prototype @ new
          \<and> raised new = [''locationupdate'']
          \<and> invoked new = [(0, Me, [Me, Me])])"
proof -
  have h: "answers_once never_throws True (Invocation [] None) [Delivers somewhere] (Some 0)"
    by (simp add: answers_once_def)
  from updateLocation_notifies_once [OF h, of JUndefined None GeoLocation_prototype] h show ?thesis
    by (auto simp: delivered_def this_arg_def)
qed

text \<open>
  Nothing in \<open>updateLocation\<close> itself makes the notification single. A provider that
  answers inside the call, with a callback that throws: the exception reaches the
  \<open>catch\<close> after \<open>locationupdate\<close> has been raised, so \<open>locationerror\<close> is raised as well
  and the callback is invoked a second time, with null. A provider that accepts and never
  answers: no event at all. A provider that answers twice: two events.
\<close>

theorem updateLocation_notifies_twice:
  "raised (trace (acquire always_throws True (Invocation [Delivers somewhere] None) []
                    (Some 0) JUndefined None GeoLocation_prototype))
     = [''locationupdate'', ''locationerror'']
   \<and> invoked (trace (acquire always_throws True (Invocation [Delivers somewhere] None) []
                       (Some 0) JUndefined None GeoLocation_prototype))
     = [(0, Me, [Me, Me]), (0, Me, [Val JNull, Me])]
   \<and> raised (trace (acquire never_throws True (Invocation [] None) []
                    (Some 0) JUndefined None GeoLocation_prototype)) = []
   \<and> raised (trace (acquire never_throws True (Invocation [] None)
                    [Delivers somewhere, Delivers somewhere]
                    (Some 0) JUndefined None GeoLocation_prototype))
     = [''locationupdate'', ''locationupdate'']"
  by (simp add: acquire_def updateLocation_def run_timer_def respond_def deliver_def
      success_def failFunction_def invoke_def fireUpdate_def fireEvent_def
      always_throws_def never_throws_def GeoLocation_prototype_def parseOptions_def Let_def
      this_arg_def)

section \<open>Properties of getPage\<close>

text \<open>
  C10. \<open>getPage\<close> returns -1, and does not throw, when \<open>XMLHttpRequest\<close> is unavailable
  and when the response text is null; when there is a response text and \<open>execute\<close> is
  falsy it returns that text (and hands it, in parentheses, to \<open>eval\<close> otherwise).
\<close>

theorem getPage_sentinel:
  "getPage None js_eval url execute = Inr (JNum (Finite (- 1)))
   \<and> getPage (Some (request(url := Responds None))) js_eval url execute
       = Inr (JNum (Finite (- 1)))
   \<and> getPage (Some (request(url := Responds (Some text)))) js_eval url execute
       = (if truthy execute then js_eval (''('' @ text @ '')'') else Inr (JStr text))"
  by (simp add: getPage_def)

end
